theory Spec2Isabelle
  imports Main "HOL-Library.Sublist"
begin


section \<open>Values and records\<close>

text \<open>
  The library stores plain JavaScript objects. A record is modelled by value, as the
  list of its own enumerable properties in insertion order (the order in which
  \<^verbatim>\<open>for (key in o)\<close> visits them); property values are primitive values.
  Numbers are integers here: fractions, NaN and the rounding of doubles are outside the
  model, and so is the special ordering JavaScript gives to array-index property names.
\<close>

datatype jsval = JUndefined | JNull | JBool bool | JNum int | JStr string

type_synonym jsobj = "(string \<times> jsval) list"

text \<open>\<^verbatim>\<open>o[k]\<close>: a missing property reads as \<^verbatim>\<open>undefined\<close>.\<close>

fun field :: "jsobj \<Rightarrow> string \<Rightarrow> jsval" where
  "field [] k = JUndefined"
| "field ((k', v) # r) k = (if k' = k then v else field r k)"

text \<open>\<^verbatim>\<open>o[k] = v\<close>: an existing property keeps its place, a new one goes last.\<close>

fun set_field :: "jsobj \<Rightarrow> string \<Rightarrow> jsval \<Rightarrow> jsobj" where
  "set_field [] k v = [(k, v)]"
| "set_field ((k', v') # r) k v =
     (if k' = k then (k, v) # r else (k', v') # set_field r k v)"

subsection \<open>The operator \<^verbatim>\<open>==\<close>\<close>

text \<open>
  Loose equality converts a string to a number before comparing it with a number. The
  conversion below reads an optional sign and decimal digits between white space, and the
  empty string as 0. Numerals in the other notations of JavaScript (a fraction, an
  exponent, a radix prefix) are outside the model: like the strings that are no numerals,
  they are read as a value no integer equals.
\<close>

definition is_space :: "char \<Rightarrow> bool" where
  "is_space c = (c \<in> set [CHR '' '', CHR 0x09, CHR 0x0A, CHR 0x0B, CHR 0x0C, CHR 0x0D])"

definition trim :: "string \<Rightarrow> string" where
  "trim s = rev (dropWhile is_space (rev (dropWhile is_space s)))"

definition digit_of :: "char \<Rightarrow> nat option" where
  "digit_of c = map_of (zip ''0123456789'' [0, 1, 2, 3, 4, 5, 6, 7, 8, 9]) c"

fun digits_to_nat :: "string \<Rightarrow> nat \<Rightarrow> nat option" where
  "digits_to_nat [] acc = Some acc"
| "digits_to_nat (c # cs) acc =
     (case digit_of c of None \<Rightarrow> None | Some d \<Rightarrow> digits_to_nat cs (10 * acc + d))"

definition str_to_num :: "string \<Rightarrow> int option" where
  "str_to_num s =
     (case trim s of
        [] \<Rightarrow> Some 0
      | c # ds \<Rightarrow>
          if c = CHR ''-'' then (if ds = [] then None else map_option (\<lambda>n. - int n) (digits_to_nat ds 0))
          else if c = CHR ''+'' then (if ds = [] then None else map_option int (digits_to_nat ds 0))
          else map_option int (digits_to_nat (c # ds) 0))"

definition bool_to_num :: "bool \<Rightarrow> int" where
  "bool_to_num b = (if b then 1 else 0)"

fun loose_eq :: "jsval \<Rightarrow> jsval \<Rightarrow> bool" where
  "loose_eq JUndefined y = (y = JUndefined \<or> y = JNull)"
| "loose_eq JNull y = (y = JUndefined \<or> y = JNull)"
| "loose_eq (JNum a) (JNum b) = (a = b)"
| "loose_eq (JNum a) (JStr s) = (str_to_num s = Some a)"
| "loose_eq (JNum a) (JBool b) = (a = bool_to_num b)"
| "loose_eq (JNum a) y = False"
| "loose_eq (JStr s) (JStr t) = (s = t)"
| "loose_eq (JStr s) (JNum a) = (str_to_num s = Some a)"
| "loose_eq (JStr s) (JBool b) = (str_to_num s = Some (bool_to_num b))"
| "loose_eq (JStr s) y = False"
| "loose_eq (JBool a) (JBool b) = (a = b)"
| "loose_eq (JBool a) (JNum b) = (bool_to_num a = b)"
| "loose_eq (JBool a) (JStr s) = (str_to_num s = Some (bool_to_num a))"
| "loose_eq (JBool a) y = False"

subsection \<open>\<^verbatim>\<open>String.prototype.indexOf\<close>\<close>

fun indexOf_from :: "string \<Rightarrow> string \<Rightarrow> nat \<Rightarrow> int" where
  "indexOf_from [] t i = (if t = [] then int i else - 1)"
| "indexOf_from (c # cs) t i =
     (if prefix t (c # cs) then int i else indexOf_from cs t (Suc i))"

definition indexOf :: "string \<Rightarrow> string \<Rightarrow> int" where
  "indexOf s t = indexOf_from s t 0"

section \<open>The Mirror object\<close>

text \<open>
  An open connection is the list of the database's object stores by name
  (\<^verbatim>\<open>objectStoreNames\<close> holds every name once), each with its key path and the
  records a cursor over it yields. \<^verbatim>\<open>idbConnection\<close> is \<^verbatim>\<open>null\<close> until the
  database has been opened.

  \<^verbatim>\<open>storageData\<close> maps a storage name to a JavaScript array. Arrays are shared by
  reference between the Mirror object and the Storage objects made from it, so they live
  in a store of arrays indexed by address, and \<open>next_array\<close> is the first address
  never handed out. Names are taken to be ordinary names, not names of properties every
  array inherits.

  The requests handed to the object store (\<^verbatim>\<open>add\<close>, \<^verbatim>\<open>put\<close>,
  \<^verbatim>\<open>delete\<close>, \<^verbatim>\<open>clear\<close>) are only recorded: the code never looks at their outcome.

  A key path is one property name. The database name and the configuration kept for
  \<^verbatim>\<open>createStorage\<close> play no part in the methods followed here and are left out, with
  \<^verbatim>\<open>close\<close> and \<^verbatim>\<open>drop\<close>.
\<close>

record objectStore =
  keyPath :: string
  rows :: "jsobj list"

datatype request =
    ReqAdd string jsobj
  | ReqPut string "jsobj option"
  | ReqDelete string jsval
  | ReqClear string

record mirror =
  idbConnection :: "(string \<times> objectStore) list option"
  storageData :: "string \<Rightarrow> nat option"
  arrays :: "nat \<Rightarrow> jsobj list"
  next_array :: nat
  requests :: "request list"

datatype error = TypeError | NotFoundError

definition Mirror :: mirror where
  "Mirror = \<lparr>idbConnection = None, storageData = (\<lambda>name. None), arrays = (\<lambda>a. []),
             next_array = 0, requests = []\<rparr>"

definition push :: "mirror \<Rightarrow> nat \<Rightarrow> jsobj \<Rightarrow> mirror" where
  "push mi a x = mi\<lparr>arrays := (arrays mi)(a := arrays mi a @ [x])\<rparr>"

section \<open>Mirror.Storage\<close>

text \<open>
  A Storage object holds its name, a reference to an array, and its methods. The only
  change the library ever makes to the methods is to overwrite seven of them with
  \<^verbatim>\<open>undefined\<close> on the result of \<^verbatim>\<open>select\<close> and \<^verbatim>\<open>innerjoin\<close>;
  \<open>undefined_slots\<close> holds the methods overwritten, and calling one of them raises a
  TypeError.
\<close>

datatype slot = GetTransaction | Truncate | Insert | Get | GetIndex | Delete | Update

datatype mode = Readonly | Readwrite

record storage =
  idbStorageName :: string
  this_storageData :: nat
  undefined_slots :: "slot set"

text \<open>
  The constructor: \<^verbatim>\<open>this.storageData = mi.storageData[name] || []\<close>. A registered
  array is shared; otherwise the Storage gets a new empty array that nothing else refers to.
\<close>

definition Storage :: "mirror \<Rightarrow> string \<Rightarrow> storage \<times> mirror" where
  "Storage mi name =
     (case storageData mi name of
        Some a \<Rightarrow>
          (\<lparr>idbStorageName = name, this_storageData = a, undefined_slots = {}\<rparr>, mi)
      | None \<Rightarrow>
          (\<lparr>idbStorageName = name, this_storageData = next_array mi, undefined_slots = {}\<rparr>,
           mi\<lparr>arrays := (arrays mi)(next_array mi := []),
              next_array := Suc (next_array mi)\<rparr>))"

text \<open>\<^verbatim>\<open>Mirror.prototype.with\<close>.\<close>

definition with_storage :: "mirror \<Rightarrow> string \<Rightarrow> storage \<times> mirror" where
  "with_storage mi name = Storage mi name"

text \<open>
  \<^verbatim>\<open>getTransaction\<close>: reading \<^verbatim>\<open>transaction\<close> of a null connection is a
  TypeError, and IndexedDB raises NotFoundError for a store the database does not have.
\<close>

definition getTransaction :: "storage \<Rightarrow> mode \<Rightarrow> mirror \<Rightarrow> error + objectStore" where
  "getTransaction this md mi =
     (if GetTransaction \<in> undefined_slots this then Inl TypeError
      else case idbConnection mi of
             None \<Rightarrow> Inl TypeError
           | Some db \<Rightarrow>
               (case map_of db (idbStorageName this) of
                  None \<Rightarrow> Inl NotFoundError
                | Some os \<Rightarrow> Inr os))"

text \<open>
  \<^verbatim>\<open>truncate\<close> assigns a new empty array to \<^verbatim>\<open>mi.storageData[name]\<close>; the
  Storage's own \<^verbatim>\<open>this.storageData\<close> is not assigned.
\<close>

definition truncate_storage :: "storage \<Rightarrow> mirror \<Rightarrow> (error + unit) \<times> mirror" where
  "truncate_storage this mi =
     (if Truncate \<in> undefined_slots this then (Inl TypeError, mi)
      else
        let mi1 = mi\<lparr>storageData := (storageData mi)(idbStorageName this \<mapsto> next_array mi),
                     arrays := (arrays mi)(next_array mi := []),
                     next_array := Suc (next_array mi)\<rparr>
        in case getTransaction this Readwrite mi1 of
             Inl e \<Rightarrow> (Inl e, mi1)
           | Inr os \<Rightarrow>
               (Inr (), mi1\<lparr>requests := requests mi1 @ [ReqClear (idbStorageName this)]\<rparr>))"

definition insert_rec :: "storage \<Rightarrow> jsobj \<Rightarrow> mirror \<Rightarrow> (error + jsobj) \<times> mirror" where
  "insert_rec this obj mi =
     (if Insert \<in> undefined_slots this then (Inl TypeError, mi)
      else
        let mi1 = push mi (this_storageData this) obj
        in case getTransaction this Readwrite mi1 of
             Inl e \<Rightarrow> (Inl e, mi1)
           | Inr os \<Rightarrow>
               (Inr obj, mi1\<lparr>requests := requests mi1 @ [ReqAdd (idbStorageName this) obj]\<rparr>))"

definition fetchall :: "storage \<Rightarrow> mirror \<Rightarrow> jsobj list" where
  "fetchall this mi = arrays mi (this_storageData this)"

definition count :: "storage \<Rightarrow> mirror \<Rightarrow> nat" where
  "count this mi = length (arrays mi (this_storageData this))"

text \<open>
  \<^verbatim>\<open>match\<close>: with a string to look for, \<^verbatim>\<open>indexOf\<close> is called on the record's
  field, which raises a TypeError unless the field holds a string. The result
  \<open>None\<close> is the \<^verbatim>\<open>false\<close> returned for an empty storage.
\<close>

fun match_loop :: "jsobj list \<Rightarrow> string \<times> jsval \<Rightarrow> jsobj list \<Rightarrow> error + jsobj list" where
  "match_loop [] flt ret = Inr ret"
| "match_loop (r # rs) (key, val) ret =
     (case val of
        JStr t \<Rightarrow>
          (case field r key of
             JStr s \<Rightarrow> match_loop rs (key, val) (if indexOf s t > - 1 then ret @ [r] else ret)
           | _ \<Rightarrow> Inl TypeError)
      | _ \<Rightarrow> match_loop rs (key, val) (if loose_eq (field r key) val then ret @ [r] else ret))"

definition match :: "storage \<Rightarrow> string \<times> jsval \<Rightarrow> mirror \<Rightarrow> error + jsobj list option" where
  "match this flt mi =
     (let data = arrays mi (this_storageData this)
      in if length data > 0
         then (case match_loop data flt [] of Inl e \<Rightarrow> Inl e | Inr ret \<Rightarrow> Inr (Some ret))
         else Inr None)"

text \<open>
  \<^verbatim>\<open>getIndex\<close> scans for the first record whose key-path field is \<^verbatim>\<open>==\<close> the
  key; \<open>None\<close> is the \<^verbatim>\<open>false\<close> it returns when there is none.
\<close>

fun getIndex_loop :: "jsobj list \<Rightarrow> string \<Rightarrow> jsval \<Rightarrow> nat \<Rightarrow> nat option" where
  "getIndex_loop [] kp key i = None"
| "getIndex_loop (r # rs) kp key i =
     (if loose_eq (field r kp) key then Some i else getIndex_loop rs kp key (Suc i))"

definition getIndex :: "storage \<Rightarrow> jsval \<Rightarrow> mirror \<Rightarrow> error + nat option" where
  "getIndex this key mi =
     (if GetIndex \<in> undefined_slots this then Inl TypeError
      else case getTransaction this Readonly mi of
             Inl e \<Rightarrow> Inl e
           | Inr os \<Rightarrow> Inr (getIndex_loop (arrays mi (this_storageData this)) (keyPath os) key 0))"

definition get :: "storage \<Rightarrow> jsval \<Rightarrow> mirror \<Rightarrow> error + jsobj option" where
  "get this key mi =
     (if Get \<in> undefined_slots this then Inl TypeError
      else case getIndex this key mi of
             Inl e \<Rightarrow> Inl e
           | Inr None \<Rightarrow> Inr None
           | Inr (Some index) \<Rightarrow> Inr (Some (arrays mi (this_storageData this) ! index)))"

text \<open>\<^verbatim>\<open>delete\<close>: \<^verbatim>\<open>splice(index, 1)\<close> removes the element at the index.\<close>

definition delete :: "storage \<Rightarrow> jsval \<Rightarrow> mirror \<Rightarrow> (error + jsobj option) \<times> mirror" where
  "delete this key mi =
     (if Delete \<in> undefined_slots this then (Inl TypeError, mi)
      else case getIndex this key mi of
             Inl e \<Rightarrow> (Inl e, mi)
           | Inr None \<Rightarrow> (Inr None, mi)
           | Inr (Some index) \<Rightarrow>
               (case get this key mi of
                  Inl e \<Rightarrow> (Inl e, mi)
                | Inr tmp \<Rightarrow>
                    (let a = this_storageData this;
                         mi1 = mi\<lparr>arrays := (arrays mi)
                                 (a := take index (arrays mi a) @ drop (Suc index) (arrays mi a))\<rparr>
                     in case getTransaction this Readwrite mi1 of
                          Inl e \<Rightarrow> (Inl e, mi1)
                        | Inr os \<Rightarrow>
                            (Inr tmp,
                             mi1\<lparr>requests := requests mi1 @
                                    [ReqDelete (idbStorageName this) key]\<rparr>))))"

text \<open>
  \<^verbatim>\<open>update\<close>. The object \<^verbatim>\<open>get\<close> returns is the array's own element, so the
  assignments of the loop change the record where it stands in the array, at the index
  \<^verbatim>\<open>getIndex\<close> gives in the state before them; this is the state \<open>mi1\<close>.
  \<^verbatim>\<open>getIndex\<close> is then called again for the write back: when it finds nothing, the
  write goes to the property \<^verbatim>\<open>"false"\<close> of the array and no element changes. When
  \<^verbatim>\<open>get\<close> itself found nothing, \<open>obj\<close> is \<open>None\<close> for \<^verbatim>\<open>false\<close>: the
  assignments are made on a primitive and are lost, and \<^verbatim>\<open>put(false)\<close> is requested.
\<close>

fun apply_changes :: "jsobj \<Rightarrow> (string \<times> jsval) list \<Rightarrow> jsobj" where
  "apply_changes obj [] = obj"
| "apply_changes obj ((k, v) # changes) = apply_changes (set_field obj k v) changes"

definition update ::
  "storage \<Rightarrow> jsval \<Rightarrow> (string \<times> jsval) list \<Rightarrow> mirror \<Rightarrow> (error + unit) \<times> mirror" where
  "update this key changes mi =
     (if Update \<in> undefined_slots this then (Inl TypeError, mi)
      else case get this key mi of
             Inl e \<Rightarrow> (Inl e, mi)
           | Inr found \<Rightarrow>
               (let a = this_storageData this;
                    obj = map_option (\<lambda>old. apply_changes old changes) found;
                    mi1 = (case (obj, getIndex this key mi) of
                             (Some new, Inr (Some pos)) \<Rightarrow>
                               mi\<lparr>arrays := (arrays mi)(a := (arrays mi a)[pos := new])\<rparr>
                           | _ \<Rightarrow> mi)
                in case getIndex this key mi1 of
                     Inl e \<Rightarrow> (Inl e, mi1)
                   | Inr w \<Rightarrow>
                       (let mi2 = (case (w, obj) of
                                     (Some index, Some new) \<Rightarrow>
                                       mi1\<lparr>arrays := (arrays mi1)(a := (arrays mi1 a)[index := new])\<rparr>
                                   | _ \<Rightarrow> mi1)
                        in case getTransaction this Readwrite mi2 of
                             Inl e \<Rightarrow> (Inl e, mi2)
                           | Inr os \<Rightarrow>
                               (Inr (),
                                mi2\<lparr>requests := requests mi2 @
                                       [ReqPut (idbStorageName this) obj]\<rparr>))))"

section \<open>Derived storages: select and innerjoin\<close>

text \<open>
  The property name under which a field is copied:
  \<^verbatim>\<open>(name == 'TMPSTORAGE') ? key : name + '.' + key\<close>.
\<close>

definition column :: "string \<Rightarrow> string \<Rightarrow> string" where
  "column name key = (if name = ''TMPSTORAGE'' then key else name @ ''.'' @ key)"

text \<open>The seven assignments of \<^verbatim>\<open>undefined\<close> that end both methods.\<close>

definition disable :: "storage \<Rightarrow> storage" where
  "disable ret =
     ret\<lparr>undefined_slots :=
           undefined_slots ret \<union> {GetTransaction, Truncate, Insert, Get, GetIndex, Delete, Update}\<rparr>"

text \<open>
  The inner loop of \<^verbatim>\<open>select\<close> over the properties of one record;
  \<^verbatim>\<open>fields.indexOf(key) > -1\<close> is membership in the list of fields.
\<close>

fun select_fields :: "string \<Rightarrow> string list \<Rightarrow> jsobj \<Rightarrow> jsobj \<Rightarrow> jsobj" where
  "select_fields name flds [] tmpo = tmpo"
| "select_fields name flds ((key, v) # rest) tmpo =
     select_fields name flds rest
       (if key \<in> set flds then set_field tmpo (column name key) v else tmpo)"

text \<open>
  The outer loop reads \<^verbatim>\<open>this.storageData.length\<close> at every turn and pushes onto
  \<^verbatim>\<open>ret.storageData\<close>. The two are the same array when a storage named TMPSTORAGE is
  registered and \<^verbatim>\<open>this\<close> refers to it; then the loop may never end, which is the
  value \<open>None\<close>. The loop is given what it reads of the two objects:
  \<^verbatim>\<open>this.idbStorageName\<close>, \<^verbatim>\<open>this.storageData\<close> and \<^verbatim>\<open>ret.storageData\<close>.
\<close>

partial_function (option) select_loop ::
  "string \<Rightarrow> nat \<Rightarrow> nat \<Rightarrow> string list \<Rightarrow> nat \<Rightarrow> mirror \<Rightarrow> mirror option" where
  "select_loop name this_data ret_data flds i mi =
     (if i < length (arrays mi this_data)
      then (let tmpo = select_fields name flds (arrays mi this_data ! i) []
            in select_loop name this_data ret_data flds (Suc i)
                 (if length tmpo > 0 then push mi ret_data tmpo else mi))
      else Some mi)"

definition select :: "storage \<Rightarrow> string list \<Rightarrow> mirror \<Rightarrow> (storage \<times> mirror) option" where
  "select this flds mi =
     (let (ret, mi1) = Storage mi ''TMPSTORAGE''
      in case select_loop (idbStorageName this) (this_storageData this) (this_storageData ret)
                flds 0 mi1 of
           None \<Rightarrow> None
         | Some mi2 \<Rightarrow> Some (disable ret, mi2))"

text \<open>
  \<^verbatim>\<open>innerjoin\<close>: the \<^verbatim>\<open>for (key in ...)\<close> loop that copies the properties of a
  record into the merged record, and the nested loops over the two arrays, which are given
  the names and the arrays of \<^verbatim>\<open>this\<close> and \<^verbatim>\<open>ij\<close> and the array of
  \<^verbatim>\<open>ret\<close>.
\<close>

fun copy_fields :: "string \<Rightarrow> jsobj \<Rightarrow> jsobj \<Rightarrow> jsobj" where
  "copy_fields name [] tmpo = tmpo"
| "copy_fields name ((key, v) # rest) tmpo =
     copy_fields name rest (set_field tmpo (column name key) v)"

partial_function (option) innerjoin_inner ::
  "string \<Rightarrow> nat \<Rightarrow> string \<Rightarrow> nat \<Rightarrow> nat \<Rightarrow> string \<times> string \<Rightarrow> nat \<Rightarrow> nat \<Rightarrow> mirror
     \<Rightarrow> mirror option"
  where
  "innerjoin_inner name this_data ij_name ij_data ret_data flt i j mi =
     (if j < length (arrays mi ij_data)
      then (let l = arrays mi this_data ! i;
                r = arrays mi ij_data ! j
            in innerjoin_inner name this_data ij_name ij_data ret_data flt i (Suc j)
                 (if loose_eq (field l (fst flt)) (field r (snd flt))
                  then push mi ret_data (copy_fields ij_name r (copy_fields name l []))
                  else mi))
      else Some mi)"

partial_function (option) innerjoin_outer ::
  "string \<Rightarrow> nat \<Rightarrow> string \<Rightarrow> nat \<Rightarrow> nat \<Rightarrow> string \<times> string \<Rightarrow> nat \<Rightarrow> mirror
     \<Rightarrow> mirror option"
  where
  "innerjoin_outer name this_data ij_name ij_data ret_data flt i mi =
     (if i < length (arrays mi this_data)
      then (case innerjoin_inner name this_data ij_name ij_data ret_data flt i 0 mi of
              None \<Rightarrow> None
            | Some mi' \<Rightarrow> innerjoin_outer name this_data ij_name ij_data ret_data flt (Suc i) mi')
      else Some mi)"

definition innerjoin ::
  "storage \<Rightarrow> string \<Rightarrow> string \<times> string \<Rightarrow> mirror \<Rightarrow> (storage \<times> mirror) option" where
  "innerjoin this secondStorage flt mi =
     (let (ij, mi1) = Storage mi secondStorage;
          (ret, mi2) = Storage mi1 ''TMPSTORAGE''
      in case innerjoin_outer (idbStorageName this) (this_storageData this)
                (idbStorageName ij) (this_storageData ij) (this_storageData ret) flt 0 mi2 of
           None \<Rightarrow> None
         | Some mi3 \<Rightarrow> Some (disable ret, mi3))"

section \<open>Renamed and projected records\<close>



section \<open>Opening and synchronising\<close>

text \<open>
  \<^verbatim>\<open>sync\<close> runs its loop to the end before any cursor reports: for every store it
  registers a new empty array and opens a cursor. Each later \<^verbatim>\<open>onsuccess\<close> event of a
  cursor either appends the record under the cursor and asks for the next one, or (the
  cursor is null) counts the store as finished. The state of a synchronisation is the
  Mirror object, the closure's \<^verbatim>\<open>counter\<close>, whether a callback was given, the records
  each open cursor has still to deliver, and the number of times the callback was called.
\<close>

record sync_state =
  self :: mirror
  counter :: nat
  oncomplete :: bool
  pending :: "(string \<times> jsobj list) list"
  completed :: nat

fun sync_loop :: "(string \<times> objectStore) list \<Rightarrow> sync_state \<Rightarrow> sync_state" where
  "sync_loop [] st = st"
| "sync_loop ((name, os) # rest) st =
     sync_loop rest
       (st\<lparr>self := (self st)
               \<lparr>storageData := (storageData (self st))(name \<mapsto> next_array (self st)),
                arrays := (arrays (self st))(next_array (self st) := []),
                next_array := Suc (next_array (self st))\<rparr>,
           pending := pending st @ [(name, rows os)]\<rparr>)"

definition sync :: "bool \<Rightarrow> mirror \<Rightarrow> error + sync_state" where
  "sync cb mi =
     (case idbConnection mi of
        None \<Rightarrow> Inl TypeError
      | Some db \<Rightarrow>
          Inr (sync_loop db \<lparr>self = mi, counter = 0, oncomplete = cb, pending = [], completed = 0\<rparr>))"

text \<open>
  \<^verbatim>\<open>open\<close>, from the request's \<^verbatim>\<open>onsuccess\<close> on: the connection is stored and
  \<^verbatim>\<open>sync\<close> is called with the callback. \<open>db\<close> is the database as the request
  delivers it.
\<close>

definition open_db :: "(string \<times> objectStore) list \<Rightarrow> bool \<Rightarrow> mirror \<Rightarrow> error + sync_state" where
  "open_db db onready mi = sync onready (mi\<lparr>idbConnection := Some db\<rparr>)"

text \<open>
  One \<^verbatim>\<open>onsuccess\<close> event of the cursor over \<open>name\<close>; \<open>None\<close> when that cursor
  has no event left to deliver. A push onto an unregistered name would raise inside the
  handler, and the cursor would never be continued.
\<close>

definition onsuccess :: "string \<Rightarrow> sync_state \<Rightarrow> sync_state option" where
  "onsuccess name st =
     (case map_of (pending st) name of
        None \<Rightarrow> None
      | Some (v # rest) \<Rightarrow>
          (case storageData (self st) name of
             None \<Rightarrow> Some (st\<lparr>pending := filter (\<lambda>p. fst p \<noteq> name) (pending st)\<rparr>)
           | Some a \<Rightarrow>
               Some (st\<lparr>self := push (self st) a v,
                        pending := map (\<lambda>p. if fst p = name then (name, rest) else p) (pending st)\<rparr>))
      | Some [] \<Rightarrow>
          (let c = Suc (counter st);
               st1 = st\<lparr>counter := c, pending := filter (\<lambda>p. fst p \<noteq> name) (pending st)\<rparr>
           in case idbConnection (self st) of
                None \<Rightarrow> Some st1
              | Some db \<Rightarrow>
                  Some (if c = length db \<and> oncomplete st
                        then st1\<lparr>completed := Suc (completed st)\<rparr> else st1)))"

text \<open>The events of a list, in its order.\<close>

fun run :: "string list \<Rightarrow> sync_state \<Rightarrow> sync_state option" where
  "run [] st = Some st"
| "run (e # es) st = (case onsuccess e st of None \<Rightarrow> None | Some st' \<Rightarrow> run es st')"

section \<open>Invariants of a synchronisation\<close>




section \<open>Sequences of calls\<close>





section \<open>Example databases\<close>

text \<open>
  The Mirror object after \<^verbatim>\<open>open\<close> and a complete synchronisation in which the
  cursors report store after store.
\<close>

definition synced :: "(string \<times> objectStore) list \<Rightarrow> mirror option" where
  "synced db =
     (case open_db db True Mirror of
        Inl e \<Rightarrow> None
      | Inr st0 \<Rightarrow>
          map_option self
            (run (concat (map (\<lambda>p. replicate (Suc (length (rows (snd p)))) (fst p)) db)) st0))"

text \<open>
  Two stores: X with key path \<^verbatim>\<open>id\<close> holds \<^verbatim>\<open>{id: 1, name: "a"}\<close>, and Y with
  key path \<^verbatim>\<open>xid\<close> holds \<^verbatim>\<open>{xid: 1, val: "z"}\<close> and \<^verbatim>\<open>{xid: 2, val: "q"}\<close>.
  \<open>mi_ex\<close> is the Mirror object once they are loaded.
\<close>

definition db_ex :: "(string \<times> objectStore) list" where
  "db_ex =
     [(''X'', \<lparr>keyPath = ''id'', rows = [[(''id'', JNum 1), (''name'', JStr ''a'')]]\<rparr>),
      (''Y'', \<lparr>keyPath = ''xid'',
              rows = [[(''xid'', JNum 1), (''val'', JStr ''z'')],
                      [(''xid'', JNum 2), (''val'', JStr ''q'')]]\<rparr>)]"

definition mi_ex :: mirror where
  "mi_ex =
     \<lparr>idbConnection = Some db_ex,
      storageData = [''X'' \<mapsto> 0, ''Y'' \<mapsto> 1],
      arrays = (\<lambda>a. [])
        (0 := [[(''id'', JNum 1), (''name'', JStr ''a'')]],
         1 := [[(''xid'', JNum 1), (''val'', JStr ''z'')], [(''xid'', JNum 2), (''val'', JStr ''q'')]]),
      next_array = 2,
      requests = []\<rparr>"


text \<open>A database with an object store that is itself named TMPSTORAGE, loaded.\<close>

definition db_tmp :: "(string \<times> objectStore) list" where
  "db_tmp =
     [(''TMPSTORAGE'', \<lparr>keyPath = ''k'', rows = [[(''z'', JNum 9)]]\<rparr>),
      (''X'', \<lparr>keyPath = ''id'', rows = [[(''a'', JNum 1)]]\<rparr>)]"

definition mi_tmp :: mirror where
  "mi_tmp =
     \<lparr>idbConnection = Some db_tmp,
      storageData = [''TMPSTORAGE'' \<mapsto> 0, ''X'' \<mapsto> 1],
      arrays = (\<lambda>a. [])(0 := [[(''z'', JNum 9)]], 1 := [[(''a'', JNum 1)]]),
      next_array = 2,
      requests = []\<rparr>"

text \<open>
  A store E of records that refer to one another: \<^verbatim>\<open>{id: 1, boss: 2}\<close> and
  \<^verbatim>\<open>{id: 2, boss: 0}\<close>, loaded.
\<close>

definition db_emp :: "(string \<times> objectStore) list" where
  "db_emp =
     [(''E'', \<lparr>keyPath = ''id'',
              rows = [[(''id'', JNum 1), (''boss'', JNum 2)],
                      [(''id'', JNum 2), (''boss'', JNum 0)]]\<rparr>)]"

definition mi_emp :: mirror where
  "mi_emp =
     \<lparr>idbConnection = Some db_emp,
      storageData = [''E'' \<mapsto> 0],
      arrays = (\<lambda>a. [])(0 := [[(''id'', JNum 1), (''boss'', JNum 2)],
                                [(''id'', JNum 2), (''boss'', JNum 0)]]),
      next_array = 1,
      requests = []\<rparr>"


section \<open>Basic facts\<close>

lemmas eval_defs = open_db_def sync_def Mirror_def onsuccess_def push_def with_storage_def
  Storage_def fetchall_def count_def truncate_storage_def getTransaction_def insert_rec_def
  match_def getIndex_def get_def delete_def update_def
  str_to_num_def trim_def is_space_def digit_of_def bool_to_num_def indexOf_def

lemma synced_ex: "synced db_ex = Some mi_ex"
  by (simp add: synced_def db_ex_def mi_ex_def eval_defs fun_eq_iff)

lemma field_set_field: "field (set_field obj k v) k' = (if k' = k then v else field obj k')"
  by (induction obj) auto


lemmas loop_defs = select_def select_loop.simps innerjoin_def innerjoin_outer.simps
  innerjoin_inner.simps disable_def column_def

lemma synced_tmp: "synced db_tmp = Some mi_tmp"
  by (simp add: synced_def db_tmp_def mi_tmp_def eval_defs fun_eq_iff)

lemma synced_emp: "synced db_emp = Some mi_emp"
  by (simp add: synced_def db_emp_def mi_emp_def eval_defs fun_eq_iff)


section \<open>Synchronisation\<close>










lemma filter_keys_subset: "fst ` set (filter (\<lambda>p. fst p \<noteq> e) ps) \<subseteq> fst ` set ps"
  by auto

























text \<open>
  Claim C2. On a database without object stores the loop of \<^verbatim>\<open>sync\<close> opens no
  cursor: the synchronisation starts with no event to come and the callback not called,
  and no event can follow, so the callback is never called.
\<close>

theorem sync_empty_never_completes:
  "open_db [] True Mirror =
     Inr \<lparr>self = Mirror\<lparr>idbConnection := Some []\<rparr>, counter = 0, oncomplete = True,
          pending = [], completed = 0\<rparr> \<and>
   (\<forall>es. run es \<lparr>self = Mirror\<lparr>idbConnection := Some []\<rparr>, counter = 0, oncomplete = True,
          pending = [], completed = 0\<rparr> =
      (if es = [] then Some \<lparr>self = Mirror\<lparr>idbConnection := Some []\<rparr>, counter = 0,
                             oncomplete = True, pending = [], completed = 0\<rparr> else None))"
proof -
  have "run es \<lparr>self = Mirror\<lparr>idbConnection := Some []\<rparr>, counter = 0, oncomplete = True,
          pending = [], completed = 0\<rparr> =
      (if es = [] then Some \<lparr>self = Mirror\<lparr>idbConnection := Some []\<rparr>, counter = 0,
                             oncomplete = True, pending = [], completed = 0\<rparr> else None)" for es
    by (cases es) (simp_all add: onsuccess_def)
  then show ?thesis by (simp add: open_db_def sync_def)
qed

section \<open>Storage operations\<close>

lemma getIndex_loop_None:
  "getIndex_loop xs kp key i = None \<longleftrightarrow> (\<forall>x \<in> set xs. \<not> loose_eq (field x kp) key)"
  by (induction xs arbitrary: i) auto

lemma getIndex_loop_Some:
  "getIndex_loop xs kp key i = Some j \<Longrightarrow>
     i \<le> j \<and> j - i < length xs \<and> loose_eq (field (xs ! (j - i)) kp) key \<and>
     (\<forall>x \<in> set (take (j - i) xs). \<not> loose_eq (field x kp) key)"
proof (induction xs arbitrary: i)
  case Nil
  then show ?case by simp
next
  case (Cons x xs)
  show ?case
  proof (cases "loose_eq (field x kp) key")
    case True
    with Cons.prems show ?thesis by simp
  next
    case False
    with Cons.prems have "getIndex_loop xs kp key (Suc i) = Some j" by simp
    from Cons.IH[OF this] have ih: "Suc i \<le> j" "j - Suc i < length xs"
      "loose_eq (field (xs ! (j - Suc i)) kp) key"
      "\<forall>x \<in> set (take (j - Suc i) xs). \<not> loose_eq (field x kp) key" by simp_all
    from ih(1) obtain d where d: "j - i = Suc d" "j - Suc i = d"
      by (metis Suc_diff_Suc Suc_le_lessD)
    with ih False show ?thesis by auto
  qed
qed


lemma field_map_of: "field obj f = (case map_of obj f of None \<Rightarrow> JUndefined | Some x \<Rightarrow> x)"
  by (induction obj) auto

lemma field_apply_changes:
  "field (apply_changes obj cs) f =
     (case map_of (rev cs) f of None \<Rightarrow> field obj f | Some x \<Rightarrow> x)"
proof (induction cs arbitrary: obj)
  case Nil
  then show ?case by simp
next
  case (Cons c cs)
  obtain k x where c: "c = (k, x)" by (cases c)
  show ?case
    by (simp add: c Cons.IH field_set_field map_add_def split: option.splits)
qed

lemma filter_set_field:
  "k \<in> S \<Longrightarrow> filter (\<lambda>p. fst p \<notin> S) (set_field obj k x) = filter (\<lambda>p. fst p \<notin> S) obj"
  by (induction obj) auto

lemma filter_apply_changes:
  "fst ` set cs \<subseteq> S \<Longrightarrow>
   filter (\<lambda>p. fst p \<notin> S) (apply_changes obj cs) = filter (\<lambda>p. fst p \<notin> S) obj"
proof (induction cs arbitrary: obj)
  case Nil
  then show ?case by simp
next
  case (Cons c cs)
  obtain k x where c: "c = (k, x)" by (cases c)
  from Cons.prems have "k \<in> S" "fst ` set cs \<subseteq> S" by (auto simp: c)
  then show ?case by (simp add: c Cons.IH filter_set_field)
qed

lemma getIndex_Inr:
  assumes "getIndex v key mi = Inr w"
  shows "\<exists>os. getTransaction v Readonly mi = Inr os \<and>
           w = getIndex_loop (arrays mi (this_storageData v)) (keyPath os) key 0"
  using assms by (auto simp: getIndex_def split: if_splits sum.splits)

lemma getTransaction_mode: "getTransaction v md mi = getTransaction v md' mi"
  by (simp add: getTransaction_def)

lemma getTransaction_arrays:
  "getTransaction v md (mi\<lparr>arrays := f\<rparr>) = getTransaction v md mi"
  by (simp add: getTransaction_def)

lemma indexOf_from_sublist: "indexOf_from s t i > - 1 \<longleftrightarrow> sublist t s"
proof (induction s t i rule: indexOf_from.induct)
  case (1 t i)
  then show ?case by simp
next
  case (2 c cs t i)
  then show ?case by (auto simp: sublist_Cons_right)
qed

lemma indexOf_sublist: "indexOf s t > - 1 \<longleftrightarrow> sublist t s"
  by (simp add: indexOf_def indexOf_from_sublist)

lemma match_loop_other:
  "(\<forall>t. val \<noteq> JStr t) \<Longrightarrow>
   match_loop rs (key, val) ret = Inr (ret @ filter (\<lambda>r. loose_eq (field r key) val) rs)"
  by (induction rs arbitrary: ret) (auto split: jsval.splits)

lemma match_loop_text:
  "\<forall>r \<in> set rs. \<exists>s. field r key = JStr s \<Longrightarrow>
   match_loop rs (key, JStr t) ret =
     Inr (ret @ filter (\<lambda>r. \<exists>s. field r key = JStr s \<and> sublist t s) rs)"
  by (induction rs arbitrary: ret) (auto simp: indexOf_sublist split: jsval.splits)

text \<open>
  What \<^verbatim>\<open>match\<close> returns where it returns: \<^verbatim>\<open>false\<close> on an empty array; for
  a value that is no string the records whose field is \<^verbatim>\<open>==\<close> it; for a string,
  when every record holds a string in the field, the records whose field contains it.
\<close>

lemma match_parts:
  "(fetchall this mi = [] \<longrightarrow> match this flt mi = Inr None) \<and>
   (fetchall this mi \<noteq> [] \<and> (\<forall>t. val \<noteq> JStr t) \<longrightarrow>
      match this (key, val) mi =
        Inr (Some (filter (\<lambda>r. loose_eq (field r key) val) (fetchall this mi)))) \<and>
   (fetchall this mi \<noteq> [] \<and> (\<forall>r \<in> set (fetchall this mi). \<exists>s. field r key = JStr s) \<longrightarrow>
      match this (key, JStr t) mi =
        Inr (Some (filter (\<lambda>r. \<exists>s. field r key = JStr s \<and> sublist t s) (fetchall this mi))))"
  by (simp add: match_def fetchall_def match_loop_other match_loop_text)

text \<open>
  After \<^verbatim>\<open>truncate\<close>, a Storage object made for the same name is empty, and the
  one \<^verbatim>\<open>truncate\<close> was called on reads what it read before.
\<close>

lemma truncate_later_storage:
  "undefined_slots this = {} \<Longrightarrow> this_storageData this < next_array mi \<Longrightarrow>
   fetchall (fst (with_storage (snd (truncate_storage this mi)) (idbStorageName this)))
     (snd (truncate_storage this mi)) = [] \<and>
   fetchall this (snd (truncate_storage this mi)) = fetchall this mi"
  by (auto simp: truncate_storage_def with_storage_def Storage_def fetchall_def Let_def
      getTransaction_def split: sum.splits option.splits)

text \<open>
  Claim C3. On the loaded store X, \<^verbatim>\<open>truncate\<close> through a Storage object leaves
  that object's own array as it was: its \<^verbatim>\<open>count\<close> is still 1 and its
  \<^verbatim>\<open>fetchall\<close> still returns the record. Only a Storage object made afterwards
  is empty.
\<close>

theorem truncate_keeps_own_array:
  "(let (v, mi1) = with_storage mi_ex ''X'';
        (r, mi2) = truncate_storage v mi1
    in (r, count v mi2, fetchall v mi2, count (fst (with_storage mi2 ''X'')) mi2)) =
   (Inr (), 1, [[(''id'', JNum 1), (''name'', JStr ''a'')]], 0)"
  by (simp add: mi_ex_def db_ex_def eval_defs)

text \<open>
  Claim C4. After \<^verbatim>\<open>{id: 2}\<close> is inserted into X, beside
  \<^verbatim>\<open>{id: 1, name: "a"}\<close>, a search for the text \<^verbatim>\<open>"a"\<close> in the field
  \<^verbatim>\<open>name\<close> raises a TypeError at the record without that field; a search for a
  number in the same field returns the empty list.
\<close>

theorem match_text_missing_field:
  "(let (v, mi1) = with_storage mi_ex ''X'';
        (r, mi2) = insert_rec v [(''id'', JNum 2)] mi1
    in (r, fetchall v mi2, match v (''name'', JStr ''a'') mi2, match v (''name'', JNum 5) mi2)) =
   (Inr [(''id'', JNum 2)],
    [[(''id'', JNum 1), (''name'', JStr ''a'')], [(''id'', JNum 2)]],
    Inl TypeError, Inr (Some []))"
  by (simp add: mi_ex_def db_ex_def eval_defs)




text \<open>
  Claim C9. When \<^verbatim>\<open>getIndex\<close> finds the key at position \<open>i\<close>,
  \<^verbatim>\<open>update\<close> succeeds, the array keeps its length, and the record at position
  \<open>i\<close> afterwards reads, in every field, the value of the last change naming that
  field, or the old value when no change names it (\<open>map_of\<close> on the reversed list
  finds the last change); the properties no change names are the same, in the same
  order.
\<close>

theorem update_record_at_key:
  assumes slots: "undefined_slots v = {}" and found: "getIndex v key mi = Inr (Some i)"
  shows "fst (update v key changes mi) = Inr () \<and>
         i < length (fetchall v mi) \<and>
         length (fetchall v (snd (update v key changes mi))) = length (fetchall v mi) \<and>
         (\<forall>f. field (fetchall v (snd (update v key changes mi)) ! i) f =
                (case map_of (rev changes) f of
                   None \<Rightarrow> field (fetchall v mi ! i) f
                 | Some x \<Rightarrow> x)) \<and>
         filter (\<lambda>p. fst p \<notin> fst ` set changes) (fetchall v (snd (update v key changes mi)) ! i) =
           filter (\<lambda>p. fst p \<notin> fst ` set changes) (fetchall v mi ! i)"
proof -
  let ?a = "this_storageData v"
  let ?xs = "arrays mi ?a"
  let ?obj = "apply_changes (?xs ! i) changes"
  let ?mi1 = "mi\<lparr>arrays := (arrays mi)(?a := ?xs[i := ?obj])\<rparr>"
  from getIndex_Inr[OF found] obtain os where tr: "getTransaction v Readonly mi = Inr os"
    and loop: "getIndex_loop ?xs (keyPath os) key 0 = Some i" by auto
  from getIndex_loop_Some[OF loop] have i: "i < length ?xs" by simp
  have tr': "getTransaction v md mi = Inr os" for md
    using tr getTransaction_mode[of v md mi Readonly] by simp
  have tr1: "getTransaction v md (mi\<lparr>arrays := f\<rparr>) = Inr os" for md f
    by (simp only: getTransaction_arrays tr')
  have g: "get v key mi = Inr (Some (?xs ! i))"
    using slots found by (simp add: get_def)
  obtain w where w: "getIndex v key ?mi1 = Inr w"
    using slots tr1[of Readonly "(arrays mi)(?a := ?xs[i := ?obj])"] by (simp add: getIndex_def)
  let ?ys = "(case w of None \<Rightarrow> ?xs[i := ?obj] | Some j \<Rightarrow> ?xs[i := ?obj, j := ?obj])"
  have upd: "update v key changes mi =
      (Inr (), mi\<lparr>arrays := (arrays mi)(?a := ?ys),
                   requests := requests mi @ [ReqPut (idbStorageName v) (Some ?obj)]\<rparr>)"
    using slots g found w tr1
    by (cases w) (simp_all add: update_def Let_def)
  have len: "length ?ys = length ?xs" by (cases w) simp_all
  have nth: "?ys ! i = ?obj"
  proof (cases w)
    case None
    with i show ?thesis by simp
  next
    case (Some j)
    with i show ?thesis by (cases "j = i") simp_all
  qed
  show ?thesis
    unfolding fetchall_def upd
    using i len nth
    by (simp add: field_apply_changes filter_apply_changes)
qed

theorem update_record_at_key_witness:
  "undefined_slots (fst (with_storage mi_ex ''Y'')) = {} \<and>
   getIndex (fst (with_storage mi_ex ''Y'')) (JNum 2) mi_ex = Inr (Some 1) \<and>
   fst (update (fst (with_storage mi_ex ''Y'')) (JNum 2)
          [(''val'', JStr ''r''), (''n'', JNum 3), (''val'', JStr ''s'')] mi_ex) = Inr () \<and>
   fetchall (fst (with_storage mi_ex ''Y''))
     (snd (update (fst (with_storage mi_ex ''Y'')) (JNum 2)
          [(''val'', JStr ''r''), (''n'', JNum 3), (''val'', JStr ''s'')] mi_ex)) =
     [[(''xid'', JNum 1), (''val'', JStr ''z'')],
      [(''xid'', JNum 2), (''val'', JStr ''s''), (''n'', JNum 3)]]"
proof -
  have h1: "undefined_slots (fst (with_storage mi_ex ''Y'')) = {}"
    by (simp add: mi_ex_def with_storage_def Storage_def)
  have h2: "getIndex (fst (with_storage mi_ex ''Y'')) (JNum 2) mi_ex = Inr (Some 1)"
    by (simp add: mi_ex_def db_ex_def eval_defs)
  from update_record_at_key[OF h1 h2]
  have h3: "fst (update (fst (with_storage mi_ex ''Y'')) (JNum 2)
          [(''val'', JStr ''r''), (''n'', JNum 3), (''val'', JStr ''s'')] mi_ex) = Inr ()"
    by blast
  have h4: "fetchall (fst (with_storage mi_ex ''Y''))
     (snd (update (fst (with_storage mi_ex ''Y'')) (JNum 2)
          [(''val'', JStr ''r''), (''n'', JNum 3), (''val'', JStr ''s'')] mi_ex)) =
     [[(''xid'', JNum 1), (''val'', JStr ''z'')],
      [(''xid'', JNum 2), (''val'', JStr ''s''), (''n'', JNum 3)]]"
    by (simp add: mi_ex_def db_ex_def eval_defs Let_def)
  from h1 h2 h3 h4 show ?thesis by simp
qed

section \<open>Derived storages\<close>












text \<open>
  On a Storage object of the store named TMPSTORAGE itself the loop of \<^verbatim>\<open>select\<close> reads
  the array it appends to: when every record projects to itself, each step adds one record
  and the index never reaches the length, so the call does not return.
\<close>

lemma select_loop_same_array:
  assumes "select_loop name a b flds i mi = Some mi'"
  shows "\<not> (a = b \<and> i < length (arrays mi a) \<and>
     (\<forall>r \<in> set (arrays mi a). select_fields name flds r [] = r \<and> r \<noteq> []))"
proof (rule select_loop.raw_induct[OF _ assms,
      where P = "\<lambda>name a b flds i mi mi'.
        \<not> (a = b \<and> i < length (arrays mi a) \<and>
     (\<forall>r \<in> set (arrays mi a). select_fields name flds r [] = r \<and> r \<noteq> []))"])
  fix loop name a b flds i mi and mi' :: mirror
  assume ih: "\<And>name a b flds i mi mi'. loop name a b flds i mi = Some mi' \<Longrightarrow>
       \<not> (a = b \<and> i < length (arrays mi a) \<and>
     (\<forall>r \<in> set (arrays mi a). select_fields name flds r [] = r \<and> r \<noteq> []))"
    and body: "(if i < length (arrays mi a)
       then let tmpo = select_fields name flds (arrays mi a ! i) []
            in loop name a b flds (Suc i) (if 0 < length tmpo then push mi b tmpo else mi)
       else Some mi) = Some mi'"
  show "\<not> (a = b \<and> i < length (arrays mi a) \<and>
     (\<forall>r \<in> set (arrays mi a). select_fields name flds r [] = r \<and> r \<noteq> []))"
  proof
    assume h: "a = b \<and> i < length (arrays mi a) \<and>
     (\<forall>r \<in> set (arrays mi a). select_fields name flds r [] = r \<and> r \<noteq> [])"
    then have ab: "b = a" and lt: "i < length (arrays mi a)"
      and al: "\<forall>r \<in> set (arrays mi a). select_fields name flds r [] = r \<and> r \<noteq> []"
      by blast+
    from lt have el: "arrays mi a ! i \<in> set (arrays mi a)" by (rule nth_mem)
    with al have t: "select_fields name flds (arrays mi a ! i) [] = arrays mi a ! i"
      "arrays mi a ! i \<noteq> []" by blast+
    let ?mi1 = "push mi a (arrays mi a ! i)"
    from body lt t ab have run: "loop name a b flds (Suc i) ?mi1 = Some mi'"
      by (simp add: Let_def)
    have len: "Suc i < length (arrays ?mi1 a)" using lt by (simp add: push_def)
    have "\<forall>r \<in> set (arrays ?mi1 a). select_fields name flds r [] = r \<and> r \<noteq> []"
      using al el by (simp add: push_def)
    with len ab have "a = b \<and> Suc i < length (arrays ?mi1 a) \<and>
          (\<forall>r \<in> set (arrays ?mi1 a). select_fields name flds r [] = r \<and> r \<noteq> [])"
      by blast
    with ih[OF run] show False by blast
  qed
qed

lemma select_registered_TMPSTORAGE_diverges:
  "select (fst (with_storage mi_tmp ''TMPSTORAGE'')) [''z''] (snd (with_storage mi_tmp ''TMPSTORAGE'')) = None"
proof (cases "select (fst (with_storage mi_tmp ''TMPSTORAGE'')) [''z''] (snd (with_storage mi_tmp ''TMPSTORAGE''))")
  case None then show ?thesis .
next
  case (Some res)
  then obtain mi' where "select_loop ''TMPSTORAGE'' 0 0 [''z''] 0 (snd (with_storage mi_tmp ''TMPSTORAGE'')) = Some mi'"
    by (auto simp: select_def mi_tmp_def db_tmp_def eval_defs Let_def split: option.splits)
  from select_loop_same_array[OF this] show ?thesis
    by (simp add: mi_tmp_def db_tmp_def eval_defs column_def)
qed








lemma select_disabled:
  "select this flds mi = Some (ret, mi') \<Longrightarrow>
   {GetTransaction, Truncate, Insert, Get, GetIndex, Delete, Update} \<subseteq> undefined_slots ret"
  by (auto simp: select_def disable_def split: prod.splits option.splits)

lemma innerjoin_disabled:
  "innerjoin this second flt mi = Some (ret, mi') \<Longrightarrow>
   {GetTransaction, Truncate, Insert, Get, GetIndex, Delete, Update} \<subseteq> undefined_slots ret"
  by (auto simp: innerjoin_def disable_def split: prod.splits option.splits)

text \<open>
  Claim C7. On a Storage returned by \<^verbatim>\<open>select\<close> or \<^verbatim>\<open>innerjoin\<close>, in any
  state, each of \<^verbatim>\<open>getTransaction\<close>, \<^verbatim>\<open>truncate\<close>, \<^verbatim>\<open>insert\<close>,
  \<^verbatim>\<open>get\<close>, \<^verbatim>\<open>getIndex\<close>, \<^verbatim>\<open>delete\<close> and \<^verbatim>\<open>update\<close> raises a
  TypeError and leaves the state as it was, while \<^verbatim>\<open>fetchall\<close>,
  \<^verbatim>\<open>count\<close>, \<^verbatim>\<open>match\<close>, \<^verbatim>\<open>select\<close> and \<^verbatim>\<open>innerjoin\<close> do what
  they do on a Storage with all its methods.
\<close>

theorem derived_storage_restricted:
  assumes "select this flds mi = Some (ret, mi') \<or> innerjoin this second flt mi = Some (ret, mi')"
  shows "getTransaction ret md m = Inl TypeError \<and>
         truncate_storage ret m = (Inl TypeError, m) \<and>
         insert_rec ret r m = (Inl TypeError, m) \<and>
         get ret k m = Inl TypeError \<and>
         getIndex ret k m = Inl TypeError \<and>
         delete ret k m = (Inl TypeError, m) \<and>
         update ret k cs m = (Inl TypeError, m) \<and>
         fetchall ret m = fetchall (ret\<lparr>undefined_slots := {}\<rparr>) m \<and>
         count ret m = count (ret\<lparr>undefined_slots := {}\<rparr>) m \<and>
         match ret f m = match (ret\<lparr>undefined_slots := {}\<rparr>) f m \<and>
         select ret fl m = select (ret\<lparr>undefined_slots := {}\<rparr>) fl m \<and>
         innerjoin ret s f2 m = innerjoin (ret\<lparr>undefined_slots := {}\<rparr>) s f2 m"
proof -
  from assms have "{GetTransaction, Truncate, Insert, Get, GetIndex, Delete, Update}
      \<subseteq> undefined_slots ret"
    using select_disabled innerjoin_disabled by blast
  then show ?thesis
    by (simp add: getTransaction_def truncate_storage_def insert_rec_def get_def getIndex_def
        delete_def update_def fetchall_def count_def match_def select_def innerjoin_def)
qed

theorem derived_storage_restricted_witness:
  "(\<exists>ret mi'. select (fst (with_storage mi_ex ''X'')) [''id''] mi_ex = Some (ret, mi') \<and>
      fetchall ret mi' = [[(''X.id'', JNum 1)]] \<and>
      count ret mi' = 1 \<and>
      insert_rec ret [(''X.id'', JNum 2)] mi' = (Inl TypeError, mi') \<and>
      truncate_storage ret mi' = (Inl TypeError, mi') \<and>
      get ret (JNum 1) mi' = Inl TypeError \<and>
      delete ret (JNum 1) mi' = (Inl TypeError, mi') \<and>
      update ret (JNum 1) [(''X.id'', JNum 5)] mi' = (Inl TypeError, mi'))"
proof -
  have "\<exists>ret mi'. select (fst (with_storage mi_ex ''X'')) [''id''] mi_ex = Some (ret, mi') \<and>
      fetchall ret mi' = [[(''X.id'', JNum 1)]] \<and> count ret mi' = 1"
    by (simp add: mi_ex_def db_ex_def eval_defs loop_defs)
  then obtain ret mi' where sel: "select (fst (with_storage mi_ex ''X'')) [''id''] mi_ex = Some (ret, mi')"
    and out: "fetchall ret mi' = [[(''X.id'', JNum 1)]]" "count ret mi' = 1" by blast
  from sel have "select (fst (with_storage mi_ex ''X'')) [''id''] mi_ex = Some (ret, mi') \<or>
     innerjoin (fst (with_storage mi_ex ''X'')) ''Y'' (''id'', ''xid'') mi_ex = Some (ret, mi')" by simp
  from derived_storage_restricted[OF this, of _ mi'] sel out show ?thesis by blast
qed

section \<open>Storage objects and the registered arrays\<close>











end
